theory Spec2Isabelle
  imports Main "HOL-Library.Word"
begin

section \<open>JavaScript strings\<close>

text \<open>
  A JavaScript string is a sequence of UTF-16 code units; \<open>length\<close> counts code units,
  as \<^verbatim>\<open>String.prototype.length\<close> does. \<open>js\<close> writes an ASCII literal as such a
  sequence.
\<close>

type_synonym jsstring = "16 word list"

definition js :: "string \<Rightarrow> jsstring" where
  "js s = map of_char s"

text \<open>
  The code units that \<^verbatim>\<open>String.prototype.trim\<close> strips: WhiteSpace (TAB, VT, FF, SP,
  NBSP, ZWNBSP and the category Zs) and LineTerminator (LF, CR, LS, PS).
\<close>

definition isWhiteSpace :: "16 word \<Rightarrow> bool" where
  "isWhiteSpace c =
     (c = 9 \<or> c = 10 \<or> c = 11 \<or> c = 12 \<or> c = 13 \<or> c = 32 \<or> c = 160
      \<or> c = 5760 \<or> (8192 \<le> c \<and> c \<le> 8202) \<or> c = 8232 \<or> c = 8233 \<or> c = 8239
      \<or> c = 8287 \<or> c = 12288 \<or> c = 65279)"

definition trim :: "jsstring \<Rightarrow> jsstring" where
  "trim s = rev (dropWhile isWhiteSpace (rev (dropWhile isWhiteSpace s)))"

text \<open>
  \<^verbatim>\<open>s.slice(start)\<close> with one argument: a negative start counts from the end, the
  start is clamped to the string, and the result runs to the end of the string.
\<close>

definition slice_js :: "jsstring \<Rightarrow> int \<Rightarrow> jsstring" where
  "slice_js s start =
     (let n = int (length s);
          from = (if start < 0 then max (n + start) 0 else min start n)
      in drop (nat from) s)"

text \<open>\<^verbatim>\<open>/^[a-z0-9_]+$/.test(s)\<close>: no flag, so \<^verbatim>\<open>^\<close> and \<^verbatim>\<open>$\<close> are the two ends of the input.\<close>

definition api_name_char :: "16 word \<Rightarrow> bool" where
  "api_name_char c = ((97 \<le> c \<and> c \<le> 122) \<or> (48 \<le> c \<and> c \<le> 57) \<or> c = 95)"

definition test_api_name_chars :: "jsstring \<Rightarrow> bool" where
  "test_api_name_chars s = (s \<noteq> [] \<and> list_all api_name_char s)"

text \<open>\<^verbatim>\<open>/__/.test(s)\<close>: two adjacent underscores somewhere in the input.\<close>

fun test_double_underscore :: "jsstring \<Rightarrow> bool" where
  "test_double_underscore (a # b # cs) = ((a = 95 \<and> b = 95) \<or> test_double_underscore (b # cs))"
| "test_double_underscore _ = False"

section \<open>Values and entities\<close>

text \<open>The JavaScript values that an entity's \<^verbatim>\<open>id\<close> and the default values can hold.\<close>

datatype jsval = JUndefined | JNull | JNum nat | JStr jsstring

text \<open>An element of the store's \<^verbatim>\<open>field/getAll\<close>: \<^verbatim>\<open>f.id\<close>, \<^verbatim>\<open>f.name\<close>, \<^verbatim>\<open>f.api_name\<close>.\<close>

record field =
  field_id :: nat
  field_name :: jsstring
  field_api_name :: jsstring

record table =
  table_id :: nat
  table_name :: jsstring
  table_api_name :: jsstring

section \<open>Component state\<close>

text \<open>
  An interval of the window: its handle, the milliseconds until it fires next and its
  period. The only callback this program ever registers is the one of \<^verbatim>\<open>apiNameUnfocus\<close>,
  \<^verbatim>\<open>() => { this.api_name_focused = false }\<close>.
\<close>

record timer =
  handle :: nat
  due_in :: nat
  period :: nat

text \<open>
  The part of a form that the hazard warning uses: the reactive flag \<^verbatim>\<open>api_name_focused\<close>,
  the instance property \<^verbatim>\<open>apiNameWarningInterval\<close> (\<open>None\<close> while it is undefined), and
  the window's intervals with the next handle \<^verbatim>\<open>setInterval\<close> hands out.
\<close>

record hazard =
  api_name_focused :: bool
  apiNameWarningInterval :: "nat option"
  timers :: "timer list"
  next_handle :: nat

text \<open>
  What both forms share: the \<^verbatim>\<open>defaultValues\<close> prop (\<open>None\<close> when it is null or undefined),
  \<^verbatim>\<open>allowedValues\<close> and \<^verbatim>\<open>values\<close> of \<^verbatim>\<open>data()\<close>, the fields whose \<^verbatim>\<open>$dirty\<close> flag is set,
  and the imported constant \<^verbatim>\<open>MAX_FIELD_NAME_LENGTH\<close>, whose module is not part of the
  sources at hand and which is therefore a parameter.
\<close>

record form = hazard +
  defaultValues :: "(string \<rightharpoonup> jsval) option"
  allowedValues :: "string list"
  form_values :: "string \<rightharpoonup> jsstring"
  dirty :: "string set"
  MAX_FIELD_NAME_LENGTH :: nat

text \<open>
  FieldForm: the props \<^verbatim>\<open>creating\<close> and \<^verbatim>\<open>forcedType\<close>, the computed \<^verbatim>\<open>fields\<close> (the
  store getter \<^verbatim>\<open>field/getAll\<close>; \<open>fields_list\<close> here, the record package owns \<open>fields\<close>) and the
  imported constant \<^verbatim>\<open>RESERVED_BASEROW_FIELD_NAMES\<close> (a parameter, as above).
\<close>

record field_form = form +
  creating :: bool
  forcedType :: "jsstring option"
  fields_list :: "field list"
  RESERVED_BASEROW_FIELD_NAMES :: "jsstring list"

text \<open>TableForm: the prop \<^verbatim>\<open>table\<close>.\<close>

record table_form = form +
  table_prop :: table

section \<open>Validators\<close>

text \<open>
  Modelled from the spec: \<^verbatim>\<open>required\<close> is imported from vuelidate, which is not part of the
  sources at hand; the spec's \<open>isNonEmpty\<close> fails when the trimmed string has zero length.
\<close>

definition required :: "jsstring \<Rightarrow> bool" where
  "required s = (trim s \<noteq> [])"

text \<open>
  Modelled from the spec: \<^verbatim>\<open>maxLength\<close> is imported from vuelidate as well; the spec's
  \<open>isWithinLength\<close> fails when the trimmed length exceeds the bound.
\<close>

definition maxLength :: "nat \<Rightarrow> jsstring \<Rightarrow> bool" where
  "maxLength n s = (length (trim s) \<le> n)"

text \<open>\<^verbatim>\<open>existingFieldId\<close> and \<^verbatim>\<open>existingTableId\<close>: \<^verbatim>\<open>this.defaultValues ? this.defaultValues.id : null\<close>.\<close>

definition existingId :: "'a form_scheme \<Rightarrow> jsval" where
  "existingId this =
     (case defaultValues this of
        None \<Rightarrow> JNull
      | Some d \<Rightarrow> (case d ''id'' of None \<Rightarrow> JUndefined | Some v \<Rightarrow> v))"

definition existingFieldId :: "field_form \<Rightarrow> jsval" where
  "existingFieldId this = existingId this"

definition existingTableId :: "table_form \<Rightarrow> jsval" where
  "existingTableId this = existingId this"

text \<open>
  The validator methods of FieldForm. \<^verbatim>\<open>!==\<close> is strict, so a numeric id differs from
  \<^verbatim>\<open>undefined\<close>; \<^verbatim>\<open>includes\<close> on strings is equality of the code units.
\<close>

definition mustHaveUniqueFieldName :: "field_form \<Rightarrow> jsstring \<Rightarrow> bool" where
  "mustHaveUniqueFieldName this param =
     (let fs = fields_list this;
          fs = (if existingFieldId this \<noteq> JNull
                then filter (\<lambda>f. JNum (field_id f) \<noteq> existingFieldId this) fs else fs)
      in \<not> List.member (map field_name fs) (trim param))"

definition mustHaveUniqueFieldAPIName :: "field_form \<Rightarrow> jsstring \<Rightarrow> bool" where
  "mustHaveUniqueFieldAPIName this param =
     (let fs = fields_list this;
          fs = (if existingFieldId this \<noteq> JNull
                then filter (\<lambda>f. JNum (field_id f) \<noteq> existingFieldId this) fs else fs)
      in \<not> List.member (map field_api_name fs) (trim param))"

text \<open>The same method body stands in FieldForm and in TableForm.\<close>

definition mustUseValidAPINameCharacters :: "jsstring \<Rightarrow> bool" where
  "mustUseValidAPINameCharacters param =
     (let param = trim param
      in test_api_name_chars param \<and> slice_js param 0 \<noteq> js ''_''
         \<and> slice_js param (- 1) \<noteq> js ''_'' \<and> \<not> test_double_underscore param)"

definition mustNotClashWithReservedName :: "field_form \<Rightarrow> jsstring \<Rightarrow> bool" where
  "mustNotClashWithReservedName this param =
     (\<not> List.member (RESERVED_BASEROW_FIELD_NAMES this) (trim param))"

section \<open>Rule maps and initial data\<close>

text \<open>
  The object \<^verbatim>\<open>validations()\<close> returns under \<^verbatim>\<open>values\<close>: for each validated key, in the
  order of declaration, its rules by name, in the order of declaration.
\<close>

type_synonym rule_map = "(string \<times> (string \<times> (jsstring \<Rightarrow> bool)) list) list"

definition FieldForm_validations :: "field_form \<Rightarrow> rule_map" where
  "FieldForm_validations this =
     (let validations =
        [(''name'',
           [(''required'', required),
            (''maxLength'', maxLength (MAX_FIELD_NAME_LENGTH this)),
            (''mustHaveUniqueFieldName'', mustHaveUniqueFieldName this),
            (''mustNotClashWithReservedName'', mustNotClashWithReservedName this)]),
         (''type'', [(''required'', required)])]
      in if \<not> creating this
         then validations @
           [(''api_name'',
              [(''required'', required),
               (''maxLength'', maxLength (MAX_FIELD_NAME_LENGTH this)),
               (''mustHaveUniqueFieldAPIName'', mustHaveUniqueFieldAPIName this),
               (''mustUseValidAPINameCharacters'', mustUseValidAPINameCharacters)])]
         else validations)"

definition TableForm_validations :: "table_form \<Rightarrow> rule_map" where
  "TableForm_validations this =
     [(''name'',
        [(''required'', required),
         (''maxLength'', maxLength (MAX_FIELD_NAME_LENGTH this))]),
      (''api_name'',
        [(''required'', required),
         (''maxLength'', maxLength (MAX_FIELD_NAME_LENGTH this)),
         (''mustUseValidAPINameCharacters'', mustUseValidAPINameCharacters)])]"

text \<open>
  \<^verbatim>\<open>data()\<close> of FieldForm, as the update it makes to the instance that holds the props;
  \<^verbatim>\<open>this.forcedType || ''\<close> is the empty string for a null as for an empty forced type.
\<close>

definition FieldForm_data :: "field_form \<Rightarrow> field_form" where
  "FieldForm_data this =
     (let allowed = [''name'', ''type''];
          vals = [''name'' \<mapsto> [], ''type'' \<mapsto> (case forcedType this of None \<Rightarrow> [] | Some t \<Rightarrow> t)]
      in if \<not> creating this
         then this\<lparr>api_name_focused := False, allowedValues := allowed @ [''api_name''],
                   form_values := vals(''api_name'' \<mapsto> [])\<rparr>
         else this\<lparr>api_name_focused := False, allowedValues := allowed, form_values := vals\<rparr>)"

definition TableForm_data :: "table_form \<Rightarrow> table_form" where
  "TableForm_data this =
     this\<lparr>api_name_focused := False, allowedValues := [''name'', ''api_name''],
          form_values := [''name'' \<mapsto> [], ''api_name'' \<mapsto> []]\<rparr>"

text \<open>
  A fresh instance: the props, the store's fields and the two constants as given, no
  dirty flag, \<^verbatim>\<open>apiNameWarningInterval\<close> undefined, no interval of the form in the window
  (whose handles are positive), then \<^verbatim>\<open>data()\<close>.
\<close>

definition FieldForm :: "bool \<Rightarrow> jsstring option \<Rightarrow> (string \<rightharpoonup> jsval) option \<Rightarrow> field list
    \<Rightarrow> nat \<Rightarrow> jsstring list \<Rightarrow> field_form" where
  "FieldForm cr ft dv fs mx rs =
     FieldForm_data
       \<lparr>api_name_focused = False, apiNameWarningInterval = None, timers = [],
        next_handle = 1,
        defaultValues = dv, allowedValues = [], form_values = Map.empty, dirty = {},
        MAX_FIELD_NAME_LENGTH = mx,
        creating = cr, forcedType = ft, fields_list = fs,
        RESERVED_BASEROW_FIELD_NAMES = rs\<rparr>"

definition TableForm :: "table \<Rightarrow> (string \<rightharpoonup> jsval) option \<Rightarrow> nat \<Rightarrow> table_form" where
  "TableForm t dv mx =
     TableForm_data
       \<lparr>api_name_focused = False, apiNameWarningInterval = None, timers = [],
        next_handle = 1,
        defaultValues = dv, allowedValues = [], form_values = Map.empty, dirty = {},
        MAX_FIELD_NAME_LENGTH = mx,
        table_prop = t\<rparr>"

section \<open>The validation engine\<close>

text \<open>
  Modelled from the spec: vuelidate and the form mixin (\<^verbatim>\<open>core/mixins/form\<close>) are not part
  of the sources at hand. After the spec's ValidationEngine, \<open>$v.values.k.r\<close> is the
  verdict of rule \<open>r\<close> of key \<open>k\<close> on the current value of \<open>k\<close>. A rule or key that
  is not declared reads as \<^verbatim>\<open>undefined\<close>, which the templates' \<^verbatim>\<open>!\<close> takes for a failure; a
  declared key without a value does not occur, since \<^verbatim>\<open>data()\<close> sets every key that
  \<^verbatim>\<open>validations()\<close> declares, and is read as a failure too.
\<close>

definition apply_rule :: "(jsstring \<Rightarrow> bool) \<Rightarrow> jsstring option \<Rightarrow> bool" where
  "apply_rule p v = (case v of None \<Rightarrow> False | Some s \<Rightarrow> p s)"

text \<open>
  Modelled from the spec: \<open>$v.values.k.r\<close> of vuelidate, which is not part of the sources
  at hand, as described above: the verdict of the declared rule \<open>r\<close> of the declared
  key \<open>k\<close> on the current value, and a failure where nothing is declared.
\<close>

definition v_rule :: "rule_map \<Rightarrow> (string \<rightharpoonup> jsstring) \<Rightarrow> string \<Rightarrow> string \<Rightarrow> bool" where
  "v_rule vs vals k r =
     (case map_of vs k of
        None \<Rightarrow> False
      | Some rules \<Rightarrow> (case map_of rules r of None \<Rightarrow> False | Some p \<Rightarrow> apply_rule p (vals k)))"

text \<open>
  Modelled from the spec: the ordered list of the failing rules of one key, which the
  spec's \<open>evaluate\<close> computes from all of the key's predicates.
\<close>

definition failing :: "(string \<times> (jsstring \<Rightarrow> bool)) list \<Rightarrow> jsstring option \<Rightarrow> string list" where
  "failing rules v = map fst (filter (\<lambda>r. \<not> apply_rule (snd r) v) rules)"

text \<open>
  Modelled from the spec: \<open>evaluate\<close> of the ValidationEngine (vuelidate in the code) gives,
  for every declared key, the names of its failing rules in the order of declaration.
\<close>

definition evaluate :: "rule_map \<Rightarrow> (string \<rightharpoonup> jsstring) \<Rightarrow> (string \<times> string list) list" where
  "evaluate vs vals = map (\<lambda>kr. (fst kr, failing (snd kr) (vals (fst kr)))) vs"

text \<open>
  Modelled from the spec: \<open>isValid\<close> (\<^verbatim>\<open>isFormValid\<close> of the form mixin and \<^verbatim>\<open>$invalid\<close> of
  vuelidate, neither in the sources at hand) holds iff every declared key's failing
  list is empty.
\<close>

definition isValid :: "rule_map \<Rightarrow> (string \<rightharpoonup> jsstring) \<Rightarrow> bool" where
  "isValid vs vals = list_all (\<lambda>kf. snd kf = []) (evaluate vs vals)"

text \<open>
  Modelled from the spec: \<open>touch\<close> (\<^verbatim>\<open>$v.values.k.$touch()\<close> of vuelidate) marks one key
  dirty.
\<close>

definition touch :: "string \<Rightarrow> 'a form_scheme \<Rightarrow> 'a form_scheme" where
  "touch k this = this\<lparr>dirty := insert k (dirty this)\<rparr>"

text \<open>
  Modelled from the spec: \<open>touchAll\<close> (\<^verbatim>\<open>$v.$touch()\<close> of vuelidate) marks every declared
  key dirty.
\<close>

definition touchAll :: "rule_map \<Rightarrow> 'a form_scheme \<Rightarrow> 'a form_scheme" where
  "touchAll vs this = this\<lparr>dirty := dirty this \<union> set (map fst vs)\<rparr>"

text \<open>
  Modelled from the spec: \<open>submit\<close> of the form mixin first touches every key; an invalid
  form emits nothing, a valid one emits a copy of the current \<^verbatim>\<open>values\<close>.
\<close>

definition submit :: "rule_map \<Rightarrow> 'a form_scheme \<Rightarrow> 'a form_scheme \<times> (string \<rightharpoonup> jsstring) option" where
  "submit vs this =
     (let this' = touchAll vs this
      in (this', if isValid vs (form_values this') then Some (form_values this') else None))"

text \<open>The engine on the rule map and the values of each of the two forms.\<close>

definition FieldForm_v :: "field_form \<Rightarrow> string \<Rightarrow> string \<Rightarrow> bool" where
  "FieldForm_v this k r = v_rule (FieldForm_validations this) (form_values this) k r"

definition TableForm_v :: "table_form \<Rightarrow> string \<Rightarrow> string \<Rightarrow> bool" where
  "TableForm_v this k r = v_rule (TableForm_validations this) (form_values this) k r"

definition FieldForm_evaluate :: "field_form \<Rightarrow> (string \<times> string list) list" where
  "FieldForm_evaluate this = evaluate (FieldForm_validations this) (form_values this)"

definition FieldForm_isValid :: "field_form \<Rightarrow> bool" where
  "FieldForm_isValid this = isValid (FieldForm_validations this) (form_values this)"

definition TableForm_evaluate :: "table_form \<Rightarrow> (string \<times> string list) list" where
  "TableForm_evaluate this = evaluate (TableForm_validations this) (form_values this)"

definition TableForm_isValid :: "table_form \<Rightarrow> bool" where
  "TableForm_isValid this = isValid (TableForm_validations this) (form_values this)"

section \<open>The hazard warning\<close>

text \<open>
  \<^verbatim>\<open>clearInterval(h)\<close> removes the interval with handle \<open>h\<close>, if there is one;
  \<^verbatim>\<open>setInterval(callback, ms)\<close> registers an interval that fires first after \<open>ms\<close>
  milliseconds and then every \<open>ms\<close> milliseconds, and returns its fresh handle.
\<close>

definition clearInterval :: "nat \<Rightarrow> 'a hazard_scheme \<Rightarrow> 'a hazard_scheme" where
  "clearInterval h s = s\<lparr>timers := filter (\<lambda>t. handle t \<noteq> h) (timers s)\<rparr>"

definition setInterval :: "nat \<Rightarrow> 'a hazard_scheme \<Rightarrow> nat \<times> 'a hazard_scheme" where
  "setInterval ms s =
     (next_handle s,
      s\<lparr>timers := timers s @ [\<lparr>handle = next_handle s, due_in = ms, period = ms\<rparr>],
        next_handle := Suc (next_handle s)\<rparr>)"

text \<open>
  The two methods, the same in FieldForm and TableForm. \<^verbatim>\<open>if (this.apiNameWarningInterval)\<close>
  holds for a handle that is defined and not zero.
\<close>

definition apiNameFocus :: "'a hazard_scheme \<Rightarrow> 'a hazard_scheme" where
  "apiNameFocus this =
     (let this1 = (case apiNameWarningInterval this of
                     None \<Rightarrow> this
                   | Some h \<Rightarrow> if h \<noteq> 0 then clearInterval h this else this)
      in this1\<lparr>api_name_focused := True\<rparr>)"

definition apiNameUnfocus :: "'a hazard_scheme \<Rightarrow> 'a hazard_scheme" where
  "apiNameUnfocus this =
     (let (h, this1) = setInterval 500 this
      in this1\<lparr>apiNameWarningInterval := Some h\<rparr>)"

text \<open>
  The window's clock moves on by \<open>ms\<close> milliseconds: \<open>firings\<close> is how often an interval
  fires in that time and \<open>advance\<close> what remains until it fires next. Every firing runs
  the callback of \<^verbatim>\<open>apiNameUnfocus\<close>, which sets \<^verbatim>\<open>api_name_focused\<close> to false.
\<close>

definition firings :: "nat \<Rightarrow> timer \<Rightarrow> nat" where
  "firings ms t = (if ms < due_in t then 0 else Suc ((ms - due_in t) div period t))"

definition advance :: "nat \<Rightarrow> timer \<Rightarrow> timer" where
  "advance ms t =
     (if ms < due_in t then t\<lparr>due_in := due_in t - ms\<rparr>
      else t\<lparr>due_in := period t - (ms - due_in t) mod period t\<rparr>)"

definition elapse :: "nat \<Rightarrow> 'a hazard_scheme \<Rightarrow> 'a hazard_scheme" where
  "elapse ms s =
     (let n = sum_list (map (firings ms) (timers s))
      in s\<lparr>api_name_focused := (if n = 0 then api_name_focused s else False),
           timers := map (advance ms) (timers s)\<rparr>)"

section \<open>Templates\<close>

text \<open>
  What the \<^verbatim>\<open>v-if\<close>/\<^verbatim>\<open>v-else-if\<close> chain below an input renders: the error of one rule,
  the hazard warning, or nothing.
\<close>

datatype rendered = ShowError string | ShowWarning | ShowNothing

definition FieldForm_name_display :: "field_form \<Rightarrow> rendered" where
  "FieldForm_name_display this =
     (if ''name'' \<in> dirty this \<and> \<not> FieldForm_v this ''name'' ''required''
        then ShowError ''required''
      else if ''name'' \<in> dirty this \<and> \<not> FieldForm_v this ''name'' ''mustHaveUniqueFieldName''
        then ShowError ''mustHaveUniqueFieldName''
      else if ''name'' \<in> dirty this \<and> \<not> FieldForm_v this ''name'' ''mustNotClashWithReservedName''
        then ShowError ''mustNotClashWithReservedName''
      else if ''name'' \<in> dirty this \<and> \<not> FieldForm_v this ''name'' ''maxLength''
        then ShowError ''maxLength''
      else ShowNothing)"

text \<open>The whole element stands under \<^verbatim>\<open>v-if="!creating"\<close>.\<close>

definition FieldForm_api_name_display :: "field_form \<Rightarrow> rendered" where
  "FieldForm_api_name_display this =
     (if creating this then ShowNothing
      else if ''api_name'' \<in> dirty this \<and> \<not> FieldForm_v this ''api_name'' ''required''
        then ShowError ''required''
      else if ''api_name'' \<in> dirty this \<and> \<not> FieldForm_v this ''api_name'' ''mustHaveUniqueFieldAPIName''
        then ShowError ''mustHaveUniqueFieldAPIName''
      else if ''api_name'' \<in> dirty this \<and> \<not> FieldForm_v this ''api_name'' ''mustUseValidAPINameCharacters''
        then ShowError ''mustUseValidAPINameCharacters''
      else if ''api_name'' \<in> dirty this \<and> \<not> FieldForm_v this ''api_name'' ''maxLength''
        then ShowError ''maxLength''
      else if api_name_focused this then ShowWarning
      else ShowNothing)"

definition TableForm_name_display :: "table_form \<Rightarrow> rendered" where
  "TableForm_name_display this =
     (if ''name'' \<in> dirty this \<and> \<not> TableForm_v this ''name'' ''required''
        then ShowError ''required''
      else if ''name'' \<in> dirty this \<and> \<not> TableForm_v this ''name'' ''maxLength''
        then ShowError ''maxLength''
      else ShowNothing)"

definition TableForm_api_name_display :: "table_form \<Rightarrow> rendered" where
  "TableForm_api_name_display this =
     (if ''api_name'' \<in> dirty this \<and> \<not> TableForm_v this ''api_name'' ''required''
        then ShowError ''required''
      else if ''api_name'' \<in> dirty this \<and> \<not> TableForm_v this ''api_name'' ''mustUseValidAPINameCharacters''
        then ShowError ''mustUseValidAPINameCharacters''
      else if ''api_name'' \<in> dirty this \<and> \<not> TableForm_v this ''api_name'' ''maxLength''
        then ShowError ''maxLength''
      else if api_name_focused this then ShowWarning
      else ShowNothing)"

text \<open>
  The events the FieldForm template binds. The \<^verbatim>\<open>api_name\<close> input exists only while
  \<^verbatim>\<open>creating\<close> is false and the type dropdown only while \<^verbatim>\<open>forcedType\<close> is null; an event
  on an element that is not rendered does not happen. A step returns the new state and
  what the form emitted, if anything.
\<close>

datatype event =
    InputName jsstring | BlurName
  | InputApiName jsstring | FocusApiName | BlurApiName
  | SelectType jsstring | HideType
  | Submit | Elapse nat

fun FieldForm_step :: "event \<Rightarrow> field_form \<Rightarrow> field_form \<times> (string \<rightharpoonup> jsstring) option" where
  "FieldForm_step (InputName s) this = (this\<lparr>form_values := (form_values this)(''name'' \<mapsto> s)\<rparr>, None)"
| "FieldForm_step BlurName this = (touch ''name'' this, None)"
| "FieldForm_step (InputApiName s) this =
     (if creating this then (this, None)
      else (this\<lparr>form_values := (form_values this)(''api_name'' \<mapsto> s)\<rparr>, None))"
| "FieldForm_step FocusApiName this =
     (if creating this then (this, None) else (apiNameFocus this, None))"
| "FieldForm_step BlurApiName this =
     (if creating this then (this, None) else (apiNameUnfocus (touch ''api_name'' this), None))"
| "FieldForm_step (SelectType s) this =
     (if forcedType this = None
      then (this\<lparr>form_values := (form_values this)(''type'' \<mapsto> s)\<rparr>, None) else (this, None))"
| "FieldForm_step HideType this =
     (if forcedType this = None then (touch ''type'' this, None) else (this, None))"
| "FieldForm_step Submit this = submit (FieldForm_validations this) this"
| "FieldForm_step (Elapse ms) this = (elapse ms this, None)"

text \<open>A run of events, with everything the form emitted on the way, latest first.\<close>

fun FieldForm_run :: "event list \<Rightarrow> field_form \<times> (string \<rightharpoonup> jsstring) list
    \<Rightarrow> field_form \<times> (string \<rightharpoonup> jsstring) list" where
  "FieldForm_run [] st = st"
| "FieldForm_run (e # es) (this, out) =
     (let (this', emitted) = FieldForm_step e this
      in FieldForm_run es (this', (case emitted of None \<Rightarrow> out | Some v \<Rightarrow> v # out)))"

section \<open>The API-name format check\<close>

lemma slice_js_zero: "slice_js s 0 = s"
  by (simp add: slice_js_def)

lemma slice_js_last: "slice_js s (- 1) = (if s = [] then [] else [last s])"
proof (cases s rule: rev_cases)
  case Nil
  then show ?thesis by (simp add: slice_js_def)
next
  case (snoc xs x)
  then show ?thesis by (simp add: slice_js_def Let_def max_def)
qed

text \<open>
  What the method computes: \<^verbatim>\<open>param.slice(0)\<close> is the whole trimmed string, so the second
  conjunct rejects the one-underscore string only, whatever the first code unit is.
\<close>

lemma mustUseValidAPINameCharacters_code:
  "mustUseValidAPINameCharacters s \<longleftrightarrow>
     test_api_name_chars (trim s) \<and> trim s \<noteq> js ''_'' \<and> last (trim s) \<noteq> 95
     \<and> \<not> test_double_underscore (trim s)"
  by (auto simp: mustUseValidAPINameCharacters_def Let_def slice_js_zero slice_js_last
      test_api_name_chars_def js_def)

text \<open>
  C1. The format check on the four strings of the scenario: \<^verbatim>\<open>"my__id"\<close> and \<^verbatim>\<open>"id_"\<close> fail
  and \<^verbatim>\<open>"my_id"\<close> passes, but \<^verbatim>\<open>"_id"\<close>, which starts with an underscore, passes as well.
\<close>

theorem mustUseValidAPINameCharacters_leading_underscore:
  "mustUseValidAPINameCharacters (js ''_id'')
   \<and> \<not> mustUseValidAPINameCharacters (js ''my__id'')
   \<and> \<not> mustUseValidAPINameCharacters (js ''id_'')
   \<and> mustUseValidAPINameCharacters (js ''my_id'')"
  by (simp add: mustUseValidAPINameCharacters_def js_def trim_def isWhiteSpace_def
      slice_js_def test_api_name_chars_def api_name_char_def)

section \<open>The table form declares no uniqueness rule\<close>

text \<open>
  C2, as stated, fails: the form for table 2 takes the name and the API name of table 1,
  and every declared rule passes.
\<close>

theorem table_form_duplicate_passes:
  "table_id \<lparr>table_id = 1, table_name = js ''Customers'', table_api_name = js ''customers''\<rparr>
     \<noteq> table_id \<lparr>table_id = 2, table_name = js ''Orders'', table_api_name = js ''orders''\<rparr>
   \<and> trim (js ''Customers'')
     = table_name \<lparr>table_id = 1, table_name = js ''Customers'', table_api_name = js ''customers''\<rparr>
   \<and> trim (js ''customers'')
     = table_api_name \<lparr>table_id = 1, table_name = js ''Customers'', table_api_name = js ''customers''\<rparr>
   \<and> TableForm_evaluate
        ((TableForm \<lparr>table_id = 2, table_name = js ''Orders'', table_api_name = js ''orders''\<rparr>
            (Some [''id'' \<mapsto> JNum 2, ''name'' \<mapsto> JStr (js ''Orders''), ''api_name'' \<mapsto> JStr (js ''orders'')])
            255)
         \<lparr>form_values := [''name'' \<mapsto> js ''Customers'', ''api_name'' \<mapsto> js ''customers'']\<rparr>)
       = [(''name'', []), (''api_name'', [])]
   \<and> TableForm_isValid
        ((TableForm \<lparr>table_id = 2, table_name = js ''Orders'', table_api_name = js ''orders''\<rparr>
            (Some [''id'' \<mapsto> JNum 2, ''name'' \<mapsto> JStr (js ''Orders''), ''api_name'' \<mapsto> JStr (js ''orders'')])
            255)
         \<lparr>form_values := [''name'' \<mapsto> js ''Customers'', ''api_name'' \<mapsto> js ''customers'']\<rparr>)"
  by (simp add: TableForm_def TableForm_data_def TableForm_evaluate_def TableForm_isValid_def
      TableForm_validations_def evaluate_def isValid_def failing_def apply_rule_def
      required_def maxLength_def mustUseValidAPINameCharacters_def js_def trim_def
      isWhiteSpace_def slice_js_def test_api_name_chars_def api_name_char_def)

text \<open>
  C2, amended. The table form declares \<open>required\<close> and \<open>maxLength\<close> for the name and
  \<open>required\<close>, \<open>maxLength\<close> and the format check for the API name, and nothing else: the
  form is valid exactly when these five verdicts on its own two values hold, whatever
  other tables exist.
\<close>

theorem table_form_rules:
  "map (\<lambda>kr. (fst kr, map fst (snd kr))) (TableForm_validations this)
     = [(''name'', [''required'', ''maxLength'']),
        (''api_name'', [''required'', ''maxLength'', ''mustUseValidAPINameCharacters''])]
   \<and> (TableForm_isValid this \<longleftrightarrow>
        apply_rule required (form_values this ''name'')
        \<and> apply_rule (maxLength (MAX_FIELD_NAME_LENGTH this)) (form_values this ''name'')
        \<and> apply_rule required (form_values this ''api_name'')
        \<and> apply_rule (maxLength (MAX_FIELD_NAME_LENGTH this)) (form_values this ''api_name'')
        \<and> apply_rule mustUseValidAPINameCharacters (form_values this ''api_name''))"
  by (auto simp: TableForm_validations_def TableForm_isValid_def isValid_def evaluate_def
      failing_def)

section \<open>The hazard timer\<close>

lemma apiNameFocus_simps:
  "api_name_focused (apiNameFocus s) = True"
  "timers (apiNameFocus s) =
     (case apiNameWarningInterval s of None \<Rightarrow> timers s
      | Some h \<Rightarrow> if h \<noteq> 0 then filter (\<lambda>t. handle t \<noteq> h) (timers s) else timers s)"
  "next_handle (apiNameFocus s) = next_handle s"
  "apiNameWarningInterval (apiNameFocus s) = apiNameWarningInterval s"
  by (simp_all add: apiNameFocus_def clearInterval_def Let_def split: option.splits)

lemma apiNameUnfocus_simps:
  "api_name_focused (apiNameUnfocus s) = api_name_focused s"
  "timers (apiNameUnfocus s) = timers s @ [\<lparr>handle = next_handle s, due_in = 500, period = 500\<rparr>]"
  "next_handle (apiNameUnfocus s) = Suc (next_handle s)"
  "apiNameWarningInterval (apiNameUnfocus s) = Some (next_handle s)"
  by (simp_all add: apiNameUnfocus_def setInterval_def)

lemma elapse_simps:
  "api_name_focused (elapse ms s) =
     (if sum_list (map (firings ms) (timers s)) = 0 then api_name_focused s else False)"
  "timers (elapse ms s) = map (advance ms) (timers s)"
  "next_handle (elapse ms s) = next_handle s"
  "apiNameWarningInterval (elapse ms s) = apiNameWarningInterval s"
  by (simp_all add: elapse_def Let_def)

text \<open>
  A focus, a blur and a second focus before the 500 milliseconds are over, from a state
  without intervals and with positive handles to come: the warning is visible after
  each step, and the second focus clears the interval.
\<close>

lemma refocus_before_cooldown:
  assumes "timers s = []" and "ms < 500" and "0 < next_handle s"
  shows "api_name_focused (apiNameFocus s)
    \<and> api_name_focused (apiNameUnfocus (apiNameFocus s))
    \<and> api_name_focused (elapse ms (apiNameUnfocus (apiNameFocus s)))
    \<and> api_name_focused (apiNameFocus (elapse ms (apiNameUnfocus (apiNameFocus s))))
    \<and> timers (apiNameFocus (elapse ms (apiNameUnfocus (apiNameFocus s)))) = []"
proof -
  have t0: "timers (apiNameFocus s) = []"
    using assms(1) by (simp add: apiNameFocus_simps split: option.splits)
  have "firings ms \<lparr>handle = next_handle s, due_in = 500, period = 500\<rparr> = 0"
    using assms(2) by (simp add: firings_def)
  moreover have "handle (advance ms \<lparr>handle = next_handle s, due_in = 500, period = 500\<rparr>) = next_handle s"
    by (simp add: advance_def)
  ultimately show ?thesis
    using t0 assms(3) by (simp add: apiNameFocus_simps apiNameUnfocus_simps elapse_simps)
qed

text \<open>
  C3. A focus, a blur and 500 milliseconds on a fresh table form: the warning is hidden,
  and the interval that \<^verbatim>\<open>setInterval\<close> registered is still there, due again in 500
  milliseconds.
\<close>

theorem hazard_interval_stays_pending:
  "\<not> api_name_focused (elapse 500 (apiNameUnfocus (apiNameFocus (TableForm \<lparr>table_id = 1, table_name = js ''Customers'', table_api_name = js ''customers''\<rparr>
       (Some [''id'' \<mapsto> JNum 1]) 255))))
   \<and> timers (elapse 500 (apiNameUnfocus (apiNameFocus (TableForm \<lparr>table_id = 1, table_name = js ''Customers'', table_api_name = js ''customers''\<rparr>
       (Some [''id'' \<mapsto> JNum 1]) 255))))
       = [\<lparr>handle = 1, due_in = 500, period = 500\<rparr>]"
  by (simp add: TableForm_def TableForm_data_def apiNameFocus_def apiNameUnfocus_def
      setInterval_def elapse_def firings_def advance_def)


section \<open>Uniqueness among the fields of a table\<close>

lemma mustHaveUniqueFieldName_iff:
  "mustHaveUniqueFieldName this s \<longleftrightarrow>
     \<not> (\<exists>f \<in> set (fields_list this).
          JNum (field_id f) \<noteq> existingFieldId this \<and> field_name f = trim s)"
  unfolding mustHaveUniqueFieldName_def Let_def
  by (cases "existingFieldId this = JNull") (auto simp: image_iff)

lemma mustHaveUniqueFieldAPIName_iff:
  "mustHaveUniqueFieldAPIName this s \<longleftrightarrow>
     \<not> (\<exists>f \<in> set (fields_list this).
          JNum (field_id f) \<noteq> existingFieldId this \<and> field_api_name f = trim s)"
  unfolding mustHaveUniqueFieldAPIName_def Let_def
  by (cases "existingFieldId this = JNull") (auto simp: image_iff)

text \<open>
  C6. Each uniqueness check fails iff the trimmed candidate equals, code unit by code
  unit, the corresponding value of a field of the table other than the one being
  edited (no field is left out when there is no existing id). Hence the unchanged value
  of the field being edited passes as long as no other field carries it.
\<close>

theorem uniqueness_checks:
  "(\<not> mustHaveUniqueFieldName this s \<longleftrightarrow>
      (\<exists>f \<in> set (fields_list this).
         JNum (field_id f) \<noteq> existingFieldId this \<and> field_name f = trim s))
   \<and> (\<not> mustHaveUniqueFieldAPIName this s \<longleftrightarrow>
      (\<exists>f \<in> set (fields_list this).
         JNum (field_id f) \<noteq> existingFieldId this \<and> field_api_name f = trim s))
   \<and> (\<forall>f \<in> set (fields_list this).
         existingFieldId this = JNum (field_id f) \<longrightarrow>
         (\<forall>g \<in> set (fields_list this).
            field_id g \<noteq> field_id f \<longrightarrow> field_name g \<noteq> trim (field_name f)) \<longrightarrow>
         mustHaveUniqueFieldName this (field_name f))
   \<and> (\<forall>f \<in> set (fields_list this).
         existingFieldId this = JNum (field_id f) \<longrightarrow>
         (\<forall>g \<in> set (fields_list this).
            field_id g \<noteq> field_id f \<longrightarrow> field_api_name g \<noteq> trim (field_api_name f)) \<longrightarrow>
         mustHaveUniqueFieldAPIName this (field_api_name f))"
  by (auto simp: mustHaveUniqueFieldName_iff mustHaveUniqueFieldAPIName_iff)

text \<open>
  A new field named \<^verbatim>\<open>"Status"\<close> beside an existing \<^verbatim>\<open>"status"\<close> passes; field 1 keeps its
  API name \<^verbatim>\<open>"status"\<close>; field 2 renamed to \<^verbatim>\<open>" status "\<close> fails.
\<close>

theorem uniqueness_checks_witness:
  "mustHaveUniqueFieldName
     (FieldForm True None (Some Map.empty)
        [\<lparr>field_id = 1, field_name = js ''status'', field_api_name = js ''status''\<rparr>,
         \<lparr>field_id = 2, field_name = js ''Notes'', field_api_name = js ''notes''\<rparr>]
        255 [js ''id'', js ''order''])
     (js ''Status'')
   \<and> mustHaveUniqueFieldAPIName
     (FieldForm False None (Some [''id'' \<mapsto> JNum 1])
        [\<lparr>field_id = 1, field_name = js ''status'', field_api_name = js ''status''\<rparr>,
         \<lparr>field_id = 2, field_name = js ''Notes'', field_api_name = js ''notes''\<rparr>]
        255 [js ''id'', js ''order''])
     (js ''status'')
   \<and> \<not> mustHaveUniqueFieldName
     (FieldForm False None (Some [''id'' \<mapsto> JNum 2])
        [\<lparr>field_id = 1, field_name = js ''status'', field_api_name = js ''status''\<rparr>,
         \<lparr>field_id = 2, field_name = js ''Notes'', field_api_name = js ''notes''\<rparr>]
        255 [js ''id'', js ''order''])
     (js '' status '')"
proof -
  let ?fs = "[\<lparr>field_id = 1, field_name = js ''status'', field_api_name = js ''status''\<rparr>,
              \<lparr>field_id = 2, field_name = js ''Notes'', field_api_name = js ''notes''\<rparr>]"
  let ?A = "FieldForm True None (Some Map.empty) ?fs 255 [js ''id'', js ''order'']"
  let ?B = "FieldForm False None (Some [''id'' \<mapsto> JNum 1]) ?fs 255 [js ''id'', js ''order'']"
  let ?C = "FieldForm False None (Some [''id'' \<mapsto> JNum 2]) ?fs 255 [js ''id'', js ''order'']"
  have a: "mustHaveUniqueFieldName ?A (js ''Status'')"
    using conjunct1 [OF uniqueness_checks [of ?A "js ''Status''"]]
    by (simp add: FieldForm_def FieldForm_data_def existingFieldId_def existingId_def js_def
        trim_def isWhiteSpace_def)
  have b: "mustHaveUniqueFieldAPIName ?B (js ''status'')"
    using conjunct1 [OF conjunct2 [OF uniqueness_checks [of ?B "js ''status''"]]]
    by (simp add: FieldForm_def FieldForm_data_def existingFieldId_def existingId_def js_def
        trim_def isWhiteSpace_def)
  have c: "\<not> mustHaveUniqueFieldName ?C (js '' status '')"
    using conjunct1 [OF uniqueness_checks [of ?C "js '' status ''"]]
    by (simp add: FieldForm_def FieldForm_data_def existingFieldId_def existingId_def js_def
        trim_def isWhiteSpace_def)
  from a b c show ?thesis by blast
qed

section \<open>Validity does not depend on anything but the inputs\<close>

lemma FieldForm_validations_frame:
  assumes "creating a = creating b" and "fields_list a = fields_list b"
    and "defaultValues a = defaultValues b"
    and "MAX_FIELD_NAME_LENGTH a = MAX_FIELD_NAME_LENGTH b"
    and "RESERVED_BASEROW_FIELD_NAMES a = RESERVED_BASEROW_FIELD_NAMES b"
  shows "FieldForm_validations a = FieldForm_validations b"
proof -
  have "existingFieldId a = existingFieldId b"
    using assms(3) by (simp add: existingFieldId_def existingId_def)
  then have "mustHaveUniqueFieldName a = mustHaveUniqueFieldName b"
    and "mustHaveUniqueFieldAPIName a = mustHaveUniqueFieldAPIName b"
    using assms(2)
    by (auto simp: fun_eq_iff mustHaveUniqueFieldName_def mustHaveUniqueFieldAPIName_def)
  moreover have "mustNotClashWithReservedName a = mustNotClashWithReservedName b"
    using assms(5) by (simp add: fun_eq_iff mustNotClashWithReservedName_def)
  ultimately show ?thesis
    using assms(1,4) by (simp add: FieldForm_validations_def Let_def)
qed

lemma TableForm_validations_frame:
  "MAX_FIELD_NAME_LENGTH a = MAX_FIELD_NAME_LENGTH b \<Longrightarrow>
     TableForm_validations a = TableForm_validations b"
  by (simp add: TableForm_validations_def)

lemma foldr_touch: "foldr touch ks this = this\<lparr>dirty := dirty this \<union> set ks\<rparr>"
  by (induction ks) (simp_all add: touch_def insert_commute Un_commute)

text \<open>
  C8. Touching any keys, in any order, or all declared keys at once, changes neither the
  failing lists nor the validity of a form nor the verdict of any rule: all of them are
  computed from the rule map and the values, and touching changes the dirty flags only.
\<close>

theorem touch_keeps_validity:
  "FieldForm_evaluate (foldr touch ks this) = FieldForm_evaluate this
   \<and> FieldForm_isValid (foldr touch ks this) = FieldForm_isValid this
   \<and> FieldForm_v (foldr touch ks this) k r = FieldForm_v this k r
   \<and> FieldForm_isValid (touchAll (FieldForm_validations this) this) = FieldForm_isValid this
   \<and> TableForm_evaluate (foldr touch ks t) = TableForm_evaluate t
   \<and> TableForm_isValid (foldr touch ks t) = TableForm_isValid t
   \<and> TableForm_v (foldr touch ks t) k r = TableForm_v t k r
   \<and> TableForm_isValid (touchAll (TableForm_validations t) t) = TableForm_isValid t"
proof -
  have f: "FieldForm_validations (foldr touch ks this) = FieldForm_validations this"
    by (rule FieldForm_validations_frame) (simp_all add: foldr_touch)
  have fa: "FieldForm_validations (touchAll vs this) = FieldForm_validations this" for vs
    by (rule FieldForm_validations_frame) (simp_all add: touchAll_def)
  have g: "TableForm_validations (foldr touch ks t) = TableForm_validations t"
    by (rule TableForm_validations_frame) (simp add: foldr_touch)
  have ga: "TableForm_validations (touchAll vs t) = TableForm_validations t" for vs
    by (rule TableForm_validations_frame) (simp add: touchAll_def)
  have v: "form_values (foldr touch ks this) = form_values this"
    "form_values (foldr touch ks t) = form_values t"
    by (simp_all add: foldr_touch)
  have va: "form_values (touchAll vs this) = form_values this"
    "form_values (touchAll ws t) = form_values t" for vs ws
    by (simp_all add: touchAll_def)
  show ?thesis
    by (simp add: FieldForm_evaluate_def FieldForm_isValid_def FieldForm_v_def
        TableForm_evaluate_def TableForm_isValid_def TableForm_v_def f fa g ga v va)
qed

text \<open>
  C9. The verdicts are a function of the inputs alone: two states of a form that agree on
  the values, the sibling fields, the reserved words, the default values, the mode and
  the length bound have the same rule map, the same failing lists and the same validity,
  whatever else differs between them (dirty flags, focus, timers). The validator methods
  assign to their own locals \<^verbatim>\<open>param\<close> and \<^verbatim>\<open>fields\<close> only, so they are embedded as functions
  that return the verdict and nothing else; evaluating again therefore starts from the
  same state and gives the same result.
\<close>

theorem evaluate_deterministic:
  "(form_values a = form_values b \<and> fields_list a = fields_list b
      \<and> RESERVED_BASEROW_FIELD_NAMES a = RESERVED_BASEROW_FIELD_NAMES b
      \<and> defaultValues a = defaultValues b \<and> creating a = creating b
      \<and> MAX_FIELD_NAME_LENGTH a = MAX_FIELD_NAME_LENGTH b
    \<longrightarrow> FieldForm_evaluate a = FieldForm_evaluate b
        \<and> FieldForm_isValid a = FieldForm_isValid b
        \<and> FieldForm_validations a = FieldForm_validations b)
   \<and> (form_values t = form_values u \<and> MAX_FIELD_NAME_LENGTH t = MAX_FIELD_NAME_LENGTH u
    \<longrightarrow> TableForm_evaluate t = TableForm_evaluate u
        \<and> TableForm_isValid t = TableForm_isValid u
        \<and> TableForm_validations t = TableForm_validations u)"
  by (auto simp: FieldForm_evaluate_def FieldForm_isValid_def TableForm_evaluate_def
      TableForm_isValid_def FieldForm_validations_frame [of a b]
      TableForm_validations_frame [of t u])

text \<open>
  A form after a touch and a focus, against the same form before them.
\<close>

theorem evaluate_deterministic_witness:
  "let b = FieldForm False None None [] 255 [];
       a = apiNameFocus (touch ''name'' b);
       u = TableForm \<lparr>table_id = 1, table_name = [], table_api_name = []\<rparr> None 255;
       t = touch ''api_name'' u
   in form_values a = form_values b \<and> fields_list a = fields_list b
      \<and> RESERVED_BASEROW_FIELD_NAMES a = RESERVED_BASEROW_FIELD_NAMES b
      \<and> defaultValues a = defaultValues b \<and> creating a = creating b
      \<and> MAX_FIELD_NAME_LENGTH a = MAX_FIELD_NAME_LENGTH b
      \<and> dirty a \<noteq> dirty b \<and> api_name_focused a \<noteq> api_name_focused b
      \<and> FieldForm_evaluate a = FieldForm_evaluate b
      \<and> FieldForm_isValid a = FieldForm_isValid b
      \<and> form_values t = form_values u
      \<and> MAX_FIELD_NAME_LENGTH t = MAX_FIELD_NAME_LENGTH u
      \<and> dirty t \<noteq> dirty u
      \<and> TableForm_evaluate t = TableForm_evaluate u
      \<and> TableForm_isValid t = TableForm_isValid u"
proof -
  let ?b = "FieldForm False None None [] 255 []"
  let ?a = "apiNameFocus (touch ''name'' ?b)"
  let ?u = "TableForm \<lparr>table_id = 1, table_name = [], table_api_name = []\<rparr> None 255"
  let ?t = "touch ''api_name'' ?u"
  have h: "form_values ?a = form_values ?b \<and> fields_list ?a = fields_list ?b
      \<and> RESERVED_BASEROW_FIELD_NAMES ?a = RESERVED_BASEROW_FIELD_NAMES ?b
      \<and> defaultValues ?a = defaultValues ?b \<and> creating ?a = creating ?b
      \<and> MAX_FIELD_NAME_LENGTH ?a = MAX_FIELD_NAME_LENGTH ?b"
    by (simp add: FieldForm_def FieldForm_data_def touch_def apiNameFocus_def)
  have d: "dirty ?a \<noteq> dirty ?b \<and> api_name_focused ?a \<noteq> api_name_focused ?b"
    by (simp add: FieldForm_def FieldForm_data_def touch_def apiNameFocus_def)
  have k: "form_values ?t = form_values ?u
      \<and> MAX_FIELD_NAME_LENGTH ?t = MAX_FIELD_NAME_LENGTH ?u"
    by (simp add: touch_def)
  have e: "dirty ?t \<noteq> dirty ?u"
    by (simp add: TableForm_def TableForm_data_def touch_def)
  from h d k e show ?thesis
    unfolding Let_def using evaluate_deterministic [of ?a ?b ?t ?u] by blast
qed

section \<open>Creation mode\<close>

lemma FieldForm_step_creating:
  "creating (fst (FieldForm_step e this)) = creating this"
  by (cases e)
    (simp_all add: touch_def touchAll_def submit_def apiNameFocus_def apiNameUnfocus_def
      setInterval_def clearInterval_def elapse_def Let_def split: option.splits)

lemma FieldForm_step_no_api_name:
  assumes "creating this" and "form_values this ''api_name'' = None"
  shows "form_values (fst (FieldForm_step e this)) ''api_name'' = None"
    and "snd (FieldForm_step e this) = Some v \<Longrightarrow> v ''api_name'' = None"
  using assms
  by (cases e; simp add: touch_def touchAll_def submit_def elapse_def Let_def
      split: if_splits)+

lemma FieldForm_run_no_api_name:
  assumes "creating this" and "form_values this ''api_name'' = None"
    and "\<forall>v \<in> set out. v ''api_name'' = None"
  shows "form_values (fst (FieldForm_run es (this, out))) ''api_name'' = None
    \<and> (\<forall>v \<in> set (snd (FieldForm_run es (this, out))). v ''api_name'' = None)"
  using assms
proof (induction es arbitrary: this out)
  case Nil
  then show ?case by simp
next
  case (Cons e es)
  obtain this' emitted where st: "FieldForm_step e this = (this', emitted)"
    by (cases "FieldForm_step e this")
  have c: "creating this'"
    using FieldForm_step_creating [of e this] st Cons.prems(1) by simp
  have n: "form_values this' ''api_name'' = None"
    using FieldForm_step_no_api_name(1) [OF Cons.prems(1,2), of e] st by simp
  have o: "\<forall>v \<in> set (case emitted of None \<Rightarrow> out | Some v \<Rightarrow> v # out). v ''api_name'' = None"
    using FieldForm_step_no_api_name(2) [OF Cons.prems(1,2), of e] st Cons.prems(3)
    by (cases emitted) simp_all
  show ?case
    using Cons.IH [OF c n o] st by simp
qed

lemma FieldForm_creating_init:
  "creating (FieldForm True ft dv fs mx rs)"
  "form_values (FieldForm True ft dv fs mx rs) ''api_name'' = None"
  "allowedValues (FieldForm True ft dv fs mx rs) = [''name'', ''type'']"
  by (simp_all add: FieldForm_def FieldForm_data_def)

text \<open>
  C5. While a field is being created the rule map has no entry for \<^verbatim>\<open>api_name\<close>, so no
  failing list is computed for it; \<^verbatim>\<open>allowedValues\<close> does not list it; and after any run of
  events on a fresh creating form, \<^verbatim>\<open>values\<close> and every emitted object are without an
  \<^verbatim>\<open>api_name\<close> key. While a field is being edited the entry is there, with the four rules
  in the order of declaration: \<open>required\<close>, \<open>maxLength\<close> with the length bound, the
  uniqueness check of the API name and the format check themselves, each giving its
  verdict on the current API name, and the failing list of the API name is computed from
  these four.
\<close>

theorem creating_without_api_name:
  "(creating this \<longrightarrow>
      map_of (FieldForm_validations this) ''api_name'' = None
      \<and> \<not> List.member (map fst (FieldForm_evaluate this)) ''api_name'')
   \<and> \<not> List.member (allowedValues (FieldForm True ft dv fs mx rs)) ''api_name''
   \<and> form_values (fst (FieldForm_run es (FieldForm True ft dv fs mx rs, []))) ''api_name'' = None
   \<and> (\<forall>v \<in> set (snd (FieldForm_run es (FieldForm True ft dv fs mx rs, []))). v ''api_name'' = None)
   \<and> (\<not> creating this \<longrightarrow>
      map_option (map fst) (map_of (FieldForm_validations this) ''api_name'')
        = Some [''required'', ''maxLength'', ''mustHaveUniqueFieldAPIName'',
                ''mustUseValidAPINameCharacters''])
   \<and> (\<not> creating this \<longrightarrow>
      map_of (FieldForm_validations this) ''api_name''
        = Some [(''required'', required),
                (''maxLength'', maxLength (MAX_FIELD_NAME_LENGTH this)),
                (''mustHaveUniqueFieldAPIName'', mustHaveUniqueFieldAPIName this),
                (''mustUseValidAPINameCharacters'', mustUseValidAPINameCharacters)]
      \<and> FieldForm_v this ''api_name'' ''required''
          = apply_rule required (form_values this ''api_name'')
      \<and> FieldForm_v this ''api_name'' ''maxLength''
          = apply_rule (maxLength (MAX_FIELD_NAME_LENGTH this)) (form_values this ''api_name'')
      \<and> FieldForm_v this ''api_name'' ''mustHaveUniqueFieldAPIName''
          = apply_rule (mustHaveUniqueFieldAPIName this) (form_values this ''api_name'')
      \<and> FieldForm_v this ''api_name'' ''mustUseValidAPINameCharacters''
          = apply_rule mustUseValidAPINameCharacters (form_values this ''api_name'')
      \<and> map_of (FieldForm_evaluate this) ''api_name''
          = Some (failing
              [(''required'', required),
               (''maxLength'', maxLength (MAX_FIELD_NAME_LENGTH this)),
               (''mustHaveUniqueFieldAPIName'', mustHaveUniqueFieldAPIName this),
               (''mustUseValidAPINameCharacters'', mustUseValidAPINameCharacters)]
              (form_values this ''api_name'')))"
proof -
  have a: "creating this \<longrightarrow>
      map_of (FieldForm_validations this) ''api_name'' = None
      \<and> \<not> List.member (map fst (FieldForm_evaluate this)) ''api_name''"
    by (simp add: FieldForm_validations_def FieldForm_evaluate_def evaluate_def)
  have b: "\<not> List.member (allowedValues (FieldForm True ft dv fs mx rs)) ''api_name''"
    by (simp add: FieldForm_creating_init)
  have c: "form_values (fst (FieldForm_run es (FieldForm True ft dv fs mx rs, []))) ''api_name'' = None
    \<and> (\<forall>v \<in> set (snd (FieldForm_run es (FieldForm True ft dv fs mx rs, []))). v ''api_name'' = None)"
    by (rule FieldForm_run_no_api_name) (simp_all add: FieldForm_creating_init)
  have d: "\<not> creating this \<longrightarrow>
      map_option (map fst) (map_of (FieldForm_validations this) ''api_name'')
        = Some [''required'', ''maxLength'', ''mustHaveUniqueFieldAPIName'',
                ''mustUseValidAPINameCharacters'']"
    by (simp add: FieldForm_validations_def)
  have e: "\<not> creating this \<longrightarrow>
      map_of (FieldForm_validations this) ''api_name''
        = Some [(''required'', required),
                (''maxLength'', maxLength (MAX_FIELD_NAME_LENGTH this)),
                (''mustHaveUniqueFieldAPIName'', mustHaveUniqueFieldAPIName this),
                (''mustUseValidAPINameCharacters'', mustUseValidAPINameCharacters)]"
    by (simp add: FieldForm_validations_def)
  have f: "\<not> creating this \<longrightarrow>
      FieldForm_v this ''api_name'' ''required''
          = apply_rule required (form_values this ''api_name'')
      \<and> FieldForm_v this ''api_name'' ''maxLength''
          = apply_rule (maxLength (MAX_FIELD_NAME_LENGTH this)) (form_values this ''api_name'')
      \<and> FieldForm_v this ''api_name'' ''mustHaveUniqueFieldAPIName''
          = apply_rule (mustHaveUniqueFieldAPIName this) (form_values this ''api_name'')
      \<and> FieldForm_v this ''api_name'' ''mustUseValidAPINameCharacters''
          = apply_rule mustUseValidAPINameCharacters (form_values this ''api_name'')"
    using e by (simp add: FieldForm_v_def v_rule_def)
  have g: "\<not> creating this \<longrightarrow>
      map_of (FieldForm_evaluate this) ''api_name''
          = Some (failing
              [(''required'', required),
               (''maxLength'', maxLength (MAX_FIELD_NAME_LENGTH this)),
               (''mustHaveUniqueFieldAPIName'', mustHaveUniqueFieldAPIName this),
               (''mustUseValidAPINameCharacters'', mustUseValidAPINameCharacters)]
              (form_values this ''api_name''))"
    by (simp add: FieldForm_validations_def FieldForm_evaluate_def evaluate_def)
  from a b c d e f g show ?thesis by blast
qed

text \<open>
  Creating \<^verbatim>\<open>"Status"\<close> of type \<^verbatim>\<open>"single_select"\<close> beside an existing \<^verbatim>\<open>"status"\<close>: the form
  is valid and emits the name and the type, and no API name. Editing field 2: an empty
  API name fails \<open>required\<close> and the format check, \<^verbatim>\<open>"status"\<close> fails the uniqueness
  check against field 1, and \<^verbatim>\<open>"My Notes"\<close> fails the format check.
\<close>

theorem creating_without_api_name_witness:
  "let fs = [\<lparr>field_id = 1, field_name = js ''status'', field_api_name = js ''status''\<rparr>,
             \<lparr>field_id = 2, field_name = js ''Notes'', field_api_name = js ''notes''\<rparr>];
       rs = [js ''id'', js ''order''];
       c = FieldForm True None (Some Map.empty) fs 255 rs;
       e = FieldForm False None (Some [''id'' \<mapsto> JNum 2]) fs 255 rs;
       e1 = e\<lparr>form_values := [''name'' \<mapsto> js ''Notes'', ''type'' \<mapsto> js ''text'',
                                ''api_name'' \<mapsto> js ''status'']\<rparr>;
       e2 = e\<lparr>form_values := [''name'' \<mapsto> js ''Notes'', ''type'' \<mapsto> js ''text'',
                                ''api_name'' \<mapsto> js ''My Notes'']\<rparr>;
       es = [InputName (js ''Status''), InputApiName (js ''x''),
             SelectType (js ''single_select''), BlurName, Submit]
   in creating c
      \<and> map_of (FieldForm_validations c) ''api_name'' = None
      \<and> map (\<lambda>v. (v ''name'', v ''type'', v ''api_name'')) (snd (FieldForm_run es (c, [])))
          = [(Some (js ''Status''), Some (js ''single_select''), None)]
      \<and> \<not> creating e
      \<and> map_option (map fst) (map_of (FieldForm_validations e) ''api_name'')
          = Some [''required'', ''maxLength'', ''mustHaveUniqueFieldAPIName'',
                  ''mustUseValidAPINameCharacters'']
      \<and> map_of (FieldForm_validations e) ''api_name''
          = Some [(''required'', required),
                  (''maxLength'', maxLength (MAX_FIELD_NAME_LENGTH e)),
                  (''mustHaveUniqueFieldAPIName'', mustHaveUniqueFieldAPIName e),
                  (''mustUseValidAPINameCharacters'', mustUseValidAPINameCharacters)]
      \<and> map_of (FieldForm_evaluate e) ''api_name''
          = Some [''required'', ''mustUseValidAPINameCharacters'']
      \<and> \<not> creating e1
      \<and> map_of (FieldForm_evaluate e1) ''api_name'' = Some [''mustHaveUniqueFieldAPIName'']
      \<and> \<not> FieldForm_v e1 ''api_name'' ''mustHaveUniqueFieldAPIName''
      \<and> \<not> creating e2
      \<and> map_of (FieldForm_evaluate e2) ''api_name'' = Some [''mustUseValidAPINameCharacters'']
      \<and> \<not> FieldForm_v e2 ''api_name'' ''mustUseValidAPINameCharacters''"
proof -
  let ?fs = "[\<lparr>field_id = 1, field_name = js ''status'', field_api_name = js ''status''\<rparr>,
             \<lparr>field_id = 2, field_name = js ''Notes'', field_api_name = js ''notes''\<rparr>]"
  let ?rs = "[js ''id'', js ''order'']"
  let ?c = "FieldForm True None (Some Map.empty) ?fs 255 ?rs"
  let ?e = "FieldForm False None (Some [''id'' \<mapsto> JNum 2]) ?fs 255 ?rs"
  let ?e1 = "?e\<lparr>form_values := [''name'' \<mapsto> js ''Notes'', ''type'' \<mapsto> js ''text'',
                                ''api_name'' \<mapsto> js ''status'']\<rparr>"
  let ?e2 = "?e\<lparr>form_values := [''name'' \<mapsto> js ''Notes'', ''type'' \<mapsto> js ''text'',
                                ''api_name'' \<mapsto> js ''My Notes'']\<rparr>"
  let ?es = "[InputName (js ''Status''), InputApiName (js ''x''),
             SelectType (js ''single_select''), BlurName, Submit]"
  note ev = FieldForm_def FieldForm_data_def failing_def apply_rule_def required_def
    maxLength_def mustHaveUniqueFieldAPIName_iff mustUseValidAPINameCharacters_def
    existingFieldId_def existingId_def js_def trim_def isWhiteSpace_def slice_js_def
    test_api_name_chars_def api_name_char_def
  note edit = creating_without_api_name
    [THEN conjunct2, THEN conjunct2, THEN conjunct2, THEN conjunct2, THEN conjunct2]
  note names = creating_without_api_name
    [THEN conjunct2, THEN conjunct2, THEN conjunct2, THEN conjunct2, THEN conjunct1]
  note cre = creating_without_api_name [THEN conjunct1]
  have c: "creating ?c" and e: "\<not> creating ?e" and e1: "\<not> creating ?e1"
    and e2: "\<not> creating ?e2"
    by (simp_all add: FieldForm_def FieldForm_data_def)
  have r: "map (\<lambda>v. (v ''name'', v ''type'', v ''api_name'')) (snd (FieldForm_run ?es (?c, [])))
      = [(Some (js ''Status''), Some (js ''single_select''), None)]"
    by (simp add: FieldForm_def FieldForm_data_def FieldForm_validations_def
        evaluate_def isValid_def failing_def apply_rule_def submit_def touch_def touchAll_def
        required_def maxLength_def mustHaveUniqueFieldName_iff mustNotClashWithReservedName_def
        existingFieldId_def existingId_def js_def trim_def isWhiteSpace_def)
  have v: "map_of (FieldForm_evaluate ?e) ''api_name''
      = Some [''required'', ''mustUseValidAPINameCharacters'']"
    using mp [OF edit [of ?e] e] by (simp add: ev)
  have v1: "map_of (FieldForm_evaluate ?e1) ''api_name'' = Some [''mustHaveUniqueFieldAPIName'']
      \<and> \<not> FieldForm_v ?e1 ''api_name'' ''mustHaveUniqueFieldAPIName''"
    using mp [OF edit [of ?e1] e1] by (simp add: ev)
  have v2: "map_of (FieldForm_evaluate ?e2) ''api_name'' = Some [''mustUseValidAPINameCharacters'']
      \<and> \<not> FieldForm_v ?e2 ''api_name'' ''mustUseValidAPINameCharacters''"
    using mp [OF edit [of ?e2] e2] by (simp add: ev)
  have n: "map_of (FieldForm_validations ?c) ''api_name'' = None"
    using mp [OF cre [of ?c] c] by blast
  have m: "map_option (map fst) (map_of (FieldForm_validations ?e) ''api_name'')
          = Some [''required'', ''maxLength'', ''mustHaveUniqueFieldAPIName'',
                  ''mustUseValidAPINameCharacters'']"
    using mp [OF names [of ?e] e] by blast
  have w: "map_of (FieldForm_validations ?e) ''api_name''
          = Some [(''required'', required),
                  (''maxLength'', maxLength (MAX_FIELD_NAME_LENGTH ?e)),
                  (''mustHaveUniqueFieldAPIName'', mustHaveUniqueFieldAPIName ?e),
                  (''mustUseValidAPINameCharacters'', mustUseValidAPINameCharacters)]"
    using mp [OF edit [of ?e] e] by blast
  show ?thesis
    unfolding Let_def
    by (intro conjI c e e1 e2 r n m w v conjunct1 [OF v1] conjunct2 [OF v1]
        conjunct1 [OF v2] conjunct2 [OF v2])
qed

section \<open>What the templates show\<close>

lemma TableForm_name_chain:
  assumes "''name'' \<in> dirty this" and "map_of (TableForm_evaluate this) ''name'' = Some fs"
    and "fs \<noteq> []"
  shows "\<exists>r. find (List.member fs) [''required'', ''maxLength''] = Some r
    \<and> TableForm_name_display this = ShowError r"
  using assms
  by (auto simp: TableForm_evaluate_def evaluate_def failing_def TableForm_v_def v_rule_def
      TableForm_validations_def TableForm_name_display_def split: if_splits)

lemma TableForm_api_name_chain:
  assumes "''api_name'' \<in> dirty this" and "map_of (TableForm_evaluate this) ''api_name'' = Some fs"
    and "fs \<noteq> []"
  shows "\<exists>r. find (List.member fs) [''required'', ''mustUseValidAPINameCharacters'', ''maxLength''] = Some r
    \<and> TableForm_api_name_display this = ShowError r"
  using assms
  by (auto simp: TableForm_evaluate_def evaluate_def failing_def TableForm_v_def v_rule_def
      TableForm_validations_def TableForm_api_name_display_def split: if_splits)

lemma FieldForm_name_chain:
  assumes "''name'' \<in> dirty this" and "map_of (FieldForm_evaluate this) ''name'' = Some fs"
    and "fs \<noteq> []"
  shows "\<exists>r. find (List.member fs)
      [''required'', ''mustHaveUniqueFieldName'', ''mustNotClashWithReservedName'', ''maxLength'']
        = Some r
    \<and> FieldForm_name_display this = ShowError r"
  using assms
  by (auto simp: FieldForm_evaluate_def evaluate_def failing_def FieldForm_v_def v_rule_def
      FieldForm_validations_def FieldForm_name_display_def Let_def split: if_splits)

lemma FieldForm_api_name_chain:
  assumes "''api_name'' \<in> dirty this"
    and "map_of (FieldForm_evaluate this) ''api_name'' = Some fs" and "fs \<noteq> []"
  shows "\<exists>r. find (List.member fs)
      [''required'', ''mustHaveUniqueFieldAPIName'', ''mustUseValidAPINameCharacters'', ''maxLength'']
        = Some r
    \<and> FieldForm_api_name_display this = ShowError r"
  using assms
  by (auto simp: FieldForm_evaluate_def evaluate_def failing_def FieldForm_v_def v_rule_def
      FieldForm_validations_def FieldForm_api_name_display_def Let_def split: if_splits)

lemma untouched_shows_no_error:
  "''name'' \<notin> dirty this \<Longrightarrow> FieldForm_name_display this = ShowNothing"
  "''api_name'' \<notin> dirty this \<Longrightarrow> FieldForm_api_name_display this \<noteq> ShowError r"
  "''name'' \<notin> dirty t \<Longrightarrow> TableForm_name_display t = ShowNothing"
  "''api_name'' \<notin> dirty t \<Longrightarrow> TableForm_api_name_display t \<noteq> ShowError r"
  by (simp_all add: FieldForm_name_display_def FieldForm_api_name_display_def
      TableForm_name_display_def TableForm_api_name_display_def)

text \<open>
  C7, as stated, fails: a dirty API name of 256 capital letters in the table form fails
  \<open>maxLength\<close> and the format check; \<open>maxLength\<close> is declared first, and the template
  shows the format error.
\<close>

theorem declared_order_counterexample:
  "map_of (TableForm_evaluate
      (touch ''api_name''
        ((TableForm \<lparr>table_id = 1, table_name = js ''Customers'', table_api_name = js ''customers''\<rparr>
       (Some [''id'' \<mapsto> JNum 1]) 255)
         \<lparr>form_values := [''name'' \<mapsto> js ''Customers'', ''api_name'' \<mapsto> replicate 256 65]\<rparr>)))
      ''api_name''
     = Some [''maxLength'', ''mustUseValidAPINameCharacters'']
   \<and> TableForm_api_name_display
      (touch ''api_name''
        ((TableForm \<lparr>table_id = 1, table_name = js ''Customers'', table_api_name = js ''customers''\<rparr>
       (Some [''id'' \<mapsto> JNum 1]) 255)
         \<lparr>form_values := [''name'' \<mapsto> js ''Customers'', ''api_name'' \<mapsto> replicate 256 65]\<rparr>))
     = ShowError ''mustUseValidAPINameCharacters''"
  by (simp add: TableForm_def TableForm_data_def TableForm_evaluate_def touch_def
      TableForm_validations_def evaluate_def failing_def apply_rule_def TableForm_v_def v_rule_def
      TableForm_api_name_display_def
      required_def maxLength_def mustUseValidAPINameCharacters_def trim_def
      isWhiteSpace_def test_api_name_chars_def api_name_char_def list_all_iff)

text \<open>
  C7, amended. A dirty field with at least one failing rule shows exactly one error, the
  first failing rule in the order of the template's chain (\<open>required\<close>, uniqueness,
  reserved name, format, \<open>maxLength\<close>, as far as the field has them); a field that is not
  dirty shows no error.
\<close>

theorem first_failing_in_template_order:
  "(''name'' \<in> dirty this \<and> map_of (FieldForm_evaluate this) ''name'' = Some fs \<and> fs \<noteq> []
      \<longrightarrow> (\<exists>r. find (List.member fs)
             [''required'', ''mustHaveUniqueFieldName'', ''mustNotClashWithReservedName'',
              ''maxLength''] = Some r
           \<and> FieldForm_name_display this = ShowError r))
   \<and> (''api_name'' \<in> dirty this \<and> map_of (FieldForm_evaluate this) ''api_name'' = Some fs
        \<and> fs \<noteq> []
      \<longrightarrow> (\<exists>r. find (List.member fs)
             [''required'', ''mustHaveUniqueFieldAPIName'', ''mustUseValidAPINameCharacters'',
              ''maxLength''] = Some r
           \<and> FieldForm_api_name_display this = ShowError r))
   \<and> (''name'' \<in> dirty t \<and> map_of (TableForm_evaluate t) ''name'' = Some fs \<and> fs \<noteq> []
      \<longrightarrow> (\<exists>r. find (List.member fs) [''required'', ''maxLength''] = Some r
           \<and> TableForm_name_display t = ShowError r))
   \<and> (''api_name'' \<in> dirty t \<and> map_of (TableForm_evaluate t) ''api_name'' = Some fs
        \<and> fs \<noteq> []
      \<longrightarrow> (\<exists>r. find (List.member fs)
             [''required'', ''mustUseValidAPINameCharacters'', ''maxLength''] = Some r
           \<and> TableForm_api_name_display t = ShowError r))
   \<and> (''name'' \<notin> dirty this \<longrightarrow> FieldForm_name_display this = ShowNothing)
   \<and> (''api_name'' \<notin> dirty this \<longrightarrow> (\<forall>r. FieldForm_api_name_display this \<noteq> ShowError r))
   \<and> (''name'' \<notin> dirty t \<longrightarrow> TableForm_name_display t = ShowNothing)
   \<and> (''api_name'' \<notin> dirty t \<longrightarrow> (\<forall>r. TableForm_api_name_display t \<noteq> ShowError r))"
  using FieldForm_name_chain [of this fs] FieldForm_api_name_chain [of this fs]
    TableForm_name_chain [of t fs] TableForm_api_name_chain [of t fs]
    untouched_shows_no_error(1) [of this] untouched_shows_no_error(2) [of this]
    untouched_shows_no_error(3) [of t] untouched_shows_no_error(4) [of t]
  by blast

text \<open>
  Forms with empty, dirty values show \<open>required\<close>; fresh forms show nothing.
\<close>

theorem first_failing_in_template_order_witness:
  "let e = FieldForm False None None [] 255 [];
       f = touch ''name'' (touch ''api_name'' e);
       u = TableForm \<lparr>table_id = 1, table_name = [], table_api_name = []\<rparr> None 255;
       t = touch ''name'' (touch ''api_name'' u)
   in ''name'' \<in> dirty f \<and> map_of (FieldForm_evaluate f) ''name'' = Some [''required'']
      \<and> FieldForm_name_display f = ShowError ''required''
      \<and> ''api_name'' \<in> dirty f
      \<and> map_of (FieldForm_evaluate f) ''api_name''
          = Some [''required'', ''mustUseValidAPINameCharacters'']
      \<and> FieldForm_api_name_display f = ShowError ''required''
      \<and> ''name'' \<in> dirty t \<and> map_of (TableForm_evaluate t) ''name'' = Some [''required'']
      \<and> TableForm_name_display t = ShowError ''required''
      \<and> ''api_name'' \<in> dirty t
      \<and> map_of (TableForm_evaluate t) ''api_name''
          = Some [''required'', ''mustUseValidAPINameCharacters'']
      \<and> TableForm_api_name_display t = ShowError ''required''
      \<and> ''name'' \<notin> dirty e \<and> FieldForm_name_display e = ShowNothing
      \<and> ''name'' \<notin> dirty u \<and> TableForm_name_display u = ShowNothing"
proof -
  let ?e = "FieldForm False None None [] 255 []"
  let ?f = "touch ''name'' (touch ''api_name'' ?e)"
  let ?u = "TableForm \<lparr>table_id = 1, table_name = [], table_api_name = []\<rparr> None 255"
  let ?t = "touch ''name'' (touch ''api_name'' ?u)"
  note ev = FieldForm_def FieldForm_data_def FieldForm_validations_def FieldForm_evaluate_def
    TableForm_def TableForm_data_def TableForm_validations_def TableForm_evaluate_def
    evaluate_def failing_def apply_rule_def touch_def required_def maxLength_def
    mustHaveUniqueFieldName_iff mustHaveUniqueFieldAPIName_iff mustNotClashWithReservedName_def
    mustUseValidAPINameCharacters_def existingFieldId_def existingId_def js_def trim_def
    isWhiteSpace_def slice_js_def test_api_name_chars_def api_name_char_def
  have f: "''name'' \<in> dirty ?f \<and> map_of (FieldForm_evaluate ?f) ''name'' = Some [''required'']
      \<and> ''api_name'' \<in> dirty ?f
      \<and> map_of (FieldForm_evaluate ?f) ''api_name''
          = Some [''required'', ''mustUseValidAPINameCharacters'']"
    by (simp add: ev)
  have t: "''name'' \<in> dirty ?t \<and> map_of (TableForm_evaluate ?t) ''name'' = Some [''required'']
      \<and> ''api_name'' \<in> dirty ?t
      \<and> map_of (TableForm_evaluate ?t) ''api_name''
          = Some [''required'', ''mustUseValidAPINameCharacters'']"
    by (simp add: ev)
  have n: "''name'' \<notin> dirty ?e \<and> ''name'' \<notin> dirty ?u"
    by (simp add: FieldForm_def FieldForm_data_def TableForm_def TableForm_data_def)
  have f1: "FieldForm_name_display ?f = ShowError ''required''"
    using f first_failing_in_template_order [of ?f "[''required'']"] by simp
  have f2: "FieldForm_api_name_display ?f = ShowError ''required''"
    using f first_failing_in_template_order
      [of ?f "[''required'', ''mustUseValidAPINameCharacters'']"] by simp
  have t1: "TableForm_name_display ?t = ShowError ''required''"
    using t first_failing_in_template_order [of _ "[''required'']" ?t] by simp
  have t2: "TableForm_api_name_display ?t = ShowError ''required''"
    using t first_failing_in_template_order
      [of _ "[''required'', ''mustUseValidAPINameCharacters'']" ?t] by simp
  have n1: "FieldForm_name_display ?e = ShowNothing \<and> TableForm_name_display ?u = ShowNothing"
    using n first_failing_in_template_order [of ?e _ ?u] by blast
  from f t n f1 f2 t1 t2 n1 show ?thesis
    unfolding Let_def by blast
qed

text \<open>
  C10. The warning is rendered iff the input is focused and no error of the API name is
  rendered, that is, unless the field is dirty and one of its rules fails (and, in the
  field form, only while editing).
\<close>

theorem hazard_warning_display:
  "(FieldForm_api_name_display this = ShowWarning \<longleftrightarrow>
      \<not> creating this \<and> api_name_focused this
      \<and> \<not> (''api_name'' \<in> dirty this
           \<and> (\<not> FieldForm_v this ''api_name'' ''required''
              \<or> \<not> FieldForm_v this ''api_name'' ''mustHaveUniqueFieldAPIName''
              \<or> \<not> FieldForm_v this ''api_name'' ''mustUseValidAPINameCharacters''
              \<or> \<not> FieldForm_v this ''api_name'' ''maxLength'')))
   \<and> (TableForm_api_name_display t = ShowWarning \<longleftrightarrow>
      api_name_focused t
      \<and> \<not> (''api_name'' \<in> dirty t
           \<and> (\<not> TableForm_v t ''api_name'' ''required''
              \<or> \<not> TableForm_v t ''api_name'' ''mustUseValidAPINameCharacters''
              \<or> \<not> TableForm_v t ''api_name'' ''maxLength'')))"
  by (auto simp: FieldForm_api_name_display_def TableForm_api_name_display_def)

text \<open>
  A focused, dirty and valid API name shows the warning; a focused, dirty and empty one
  does not; a focused API name of a fresh table form does.
\<close>

theorem hazard_warning_display_witness:
  "let e = FieldForm False None None [] 255 [];
       b = apiNameFocus (touch ''api_name''
             (e\<lparr>form_values := [''name'' \<mapsto> js ''Status'', ''type'' \<mapsto> js ''text'',
                                 ''api_name'' \<mapsto> js ''my_id'']\<rparr>));
       a = apiNameFocus (touch ''api_name'' e);
       t = apiNameFocus
             (TableForm \<lparr>table_id = 1, table_name = [], table_api_name = []\<rparr> None 255)
   in \<not> creating b \<and> api_name_focused b \<and> ''api_name'' \<in> dirty b
      \<and> FieldForm_v b ''api_name'' ''required''
      \<and> FieldForm_v b ''api_name'' ''mustHaveUniqueFieldAPIName''
      \<and> FieldForm_v b ''api_name'' ''mustUseValidAPINameCharacters''
      \<and> FieldForm_v b ''api_name'' ''maxLength''
      \<and> FieldForm_api_name_display b = ShowWarning
      \<and> api_name_focused a \<and> ''api_name'' \<in> dirty a
      \<and> \<not> FieldForm_v a ''api_name'' ''required''
      \<and> FieldForm_api_name_display a \<noteq> ShowWarning
      \<and> api_name_focused t \<and> ''api_name'' \<notin> dirty t
      \<and> TableForm_api_name_display t = ShowWarning"
proof -
  let ?e = "FieldForm False None None [] 255 []"
  let ?b = "apiNameFocus (touch ''api_name''
             (?e\<lparr>form_values := [''name'' \<mapsto> js ''Status'', ''type'' \<mapsto> js ''text'',
                                 ''api_name'' \<mapsto> js ''my_id'']\<rparr>))"
  let ?a = "apiNameFocus (touch ''api_name'' ?e)"
  let ?t = "apiNameFocus
             (TableForm \<lparr>table_id = 1, table_name = [], table_api_name = []\<rparr> None 255)"
  note ev = FieldForm_def FieldForm_data_def FieldForm_validations_def
    FieldForm_v_def v_rule_def apply_rule_def touch_def apiNameFocus_def required_def
    maxLength_def mustHaveUniqueFieldAPIName_iff mustUseValidAPINameCharacters_def
    existingFieldId_def existingId_def js_def trim_def isWhiteSpace_def slice_js_def
    test_api_name_chars_def api_name_char_def
  have b: "\<not> creating ?b \<and> api_name_focused ?b \<and> ''api_name'' \<in> dirty ?b
      \<and> FieldForm_v ?b ''api_name'' ''required''
      \<and> FieldForm_v ?b ''api_name'' ''mustHaveUniqueFieldAPIName''
      \<and> FieldForm_v ?b ''api_name'' ''mustUseValidAPINameCharacters''
      \<and> FieldForm_v ?b ''api_name'' ''maxLength''"
    by (simp add: ev)
  have a: "api_name_focused ?a \<and> ''api_name'' \<in> dirty ?a
      \<and> \<not> FieldForm_v ?a ''api_name'' ''required''"
    by (simp add: ev)
  have t: "api_name_focused ?t \<and> ''api_name'' \<notin> dirty ?t"
    by (simp add: TableForm_def TableForm_data_def apiNameFocus_def)
  from a b t show ?thesis
    unfolding Let_def
    using hazard_warning_display [of ?b ?t] hazard_warning_display [of ?a ?t]
    by blast
qed

end
